theory Spec2Isabelle
  imports Main "HOL-Library.Word"
begin

section \<open>The WebAssembly post-compilation patcher of magefile.go\<close>

text \<open>
  The function under study is \<^verbatim>\<open>patchWasm\<close> (src/magefile.go, lines 412-440):
  \<^verbatim>\<open>
  func patchWasm(inPath, outPath string, initialPages int) error {
      raw, err := os.ReadFile(inPath)
      if err != nil { return err }
      mod, err := binary.DecodeModule(raw, wasm.CoreFeaturesV2)
      if err != nil { return err }

      mod.MemorySection.Min = uint32(initialPages)

      for _, imp := range mod.ImportSection {
          switch {
          case imp.Name == "fd_filestat_get":
              imp.Name = "fd_fdstat_get"
          case imp.Name == "path_filestat_get":
              imp.Module = "env"
              imp.Name = "proxy_get_header_map_value"
          }
      }

      out := binary.EncodeModule(mod)
      if err = os.WriteFile(outPath, out, 0644); err != nil { return err }
      return nil
  }
  \<close>
  The decoder, the encoder and the file operations belong to external libraries
  (github.com/tetratelabs/wabin and the Go standard library); they are parameters of the
  model. The patch itself (lines 422-432) is translated statement by statement.
\<close>

subsection \<open>Data model\<close>

type_synonym byte = "8 word"

text \<open>
  Modelled from the spec: the struct \<^verbatim>\<open>wasm.Memory\<close> of the wabin library is not under
  src/. The spec gives a memory type "a minimum page count and an optional maximum page
  count". The source fixes the type of the minimum: line 422 assigns a \<^verbatim>\<open>uint32\<close> to it.
  The field names carry a suffix, since \<open>Min\<close> and \<open>Max\<close> are constants of HOL.
\<close>

record Memory =
  Min_pages :: "32 word"
  Max_pages :: "32 word option"

text \<open>
  Modelled from the spec: the struct \<^verbatim>\<open>wasm.Import\<close> is not under src/. The source reads
  and writes its string fields \<^verbatim>\<open>Module\<close> and \<^verbatim>\<open>Name\<close> (lines 426-430); the spec adds "a
  description tag (function-type index | table type | memory type | global type)". The
  table and global types are never inspected by the patch and stay a type parameter.
\<close>

datatype 't ImportDesc =
    DescFunc "32 word"
  | DescTable 't
  | DescMem Memory
  | DescGlobal 't

datatype ExternType = ExternTypeFunc | ExternTypeTable | ExternTypeMemory | ExternTypeGlobal

fun descKind :: "'t ImportDesc \<Rightarrow> ExternType" where
  "descKind (DescFunc _) = ExternTypeFunc"
| "descKind (DescTable _) = ExternTypeTable"
| "descKind (DescMem _) = ExternTypeMemory"
| "descKind (DescGlobal _) = ExternTypeGlobal"

record 't Import =
  Module :: string
  Name :: string
  Desc :: "'t ImportDesc"

text \<open>
  Modelled from the spec: the struct \<^verbatim>\<open>wasm.Module\<close> is not under src/. The source uses
  two of its fields: \<^verbatim>\<open>MemorySection\<close>, a pointer (line 422 dereferences it; \<open>None\<close> is the
  nil pointer of a module that declares no Memory section), and \<^verbatim>\<open>ImportSection\<close>, a
  slice of pointers to import entries that the loop of lines 424-432 updates in place.
  Every other section (Type, Function, Table, Global, Export, Start, Element, Code, Data,
  Custom) is kept in \<open>OtherSections\<close>, of a type the patch never looks into.
  The decoder builds a fresh object for every entry, so no two fields share an object and
  the in-place updates of the source are updates of the fields of a value.
\<close>

record ('t, 's) Module =
  ImportSection :: "'t Import list"
  MemorySection :: "Memory option"
  OtherSections :: 's

subsection \<open>The patch (lines 422-432)\<close>

text \<open>
  Line 422, \<^verbatim>\<open>mod.MemorySection.Min = uint32(initialPages)\<close>. Go's \<^verbatim>\<open>int\<close> is 64 bits wide on
  the build platforms; the conversion to \<^verbatim>\<open>uint32\<close> keeps the low 32 bits (\<open>ucast\<close>). The
  write goes through the pointer \<^verbatim>\<open>mod.MemorySection\<close>: when it is nil the Go runtime
  panics, which is the result \<open>None\<close> here.
\<close>

definition setMemoryMin :: "64 word \<Rightarrow> ('t, 's) Module \<Rightarrow> ('t, 's) Module option" where
  "setMemoryMin initialPages m =
     (case MemorySection m of
        None \<Rightarrow> None
      | Some mem \<Rightarrow> Some (m\<lparr>MemorySection := Some (mem\<lparr>Min_pages := ucast initialPages\<rparr>)\<rparr>))"

text \<open>The body of the loop, lines 425-431: a \<^verbatim>\<open>switch\<close> whose first true case wins.\<close>

definition renameImport :: "'t Import \<Rightarrow> 't Import" where
  "renameImport imp =
     (if Name imp = ''fd_filestat_get'' then imp\<lparr>Name := ''fd_fdstat_get''\<rparr>
      else if Name imp = ''path_filestat_get''
        then imp\<lparr>Module := ''env'', Name := ''proxy_get_header_map_value''\<rparr>
      else imp)"

text \<open>
  The loop of lines 424-432 visits every entry of the Import section once, in order, with
  no \<^verbatim>\<open>break\<close>; each entry is updated through its own pointer.
\<close>

definition renameImports :: "('t, 's) Module \<Rightarrow> ('t, 's) Module" where
  "renameImports m = m\<lparr>ImportSection := map renameImport (ImportSection m)\<rparr>"

text \<open>Lines 422-432 in sequence: a panic at line 422 means the loop is never reached.\<close>

definition patchModule :: "64 word \<Rightarrow> ('t, 's) Module \<Rightarrow> ('t, 's) Module option" where
  "patchModule initialPages m =
     (case setMemoryMin initialPages m of
        None \<Rightarrow> None
      | Some m' \<Rightarrow> Some (renameImports m'))"

subsection \<open>The run (lines 412-440)\<close>

text \<open>
  The external operations. \<open>ReadFile\<close> and \<open>WriteFile\<close> are \<^verbatim>\<open>os.ReadFile\<close> and
  \<^verbatim>\<open>os.WriteFile\<close> (with the fixed mode 0644), \<open>DecodeModule\<close> is \<^verbatim>\<open>binary.DecodeModule\<close>
  with the fixed feature set \<^verbatim>\<open>wasm.CoreFeaturesV2\<close>, \<open>EncodeModule\<close> is
  \<^verbatim>\<open>binary.EncodeModule\<close>, which returns no error. \<open>'e\<close> is Go's \<^verbatim>\<open>error\<close>.
\<close>

record ('e, 't, 's) sys =
  ReadFile :: "string \<Rightarrow> 'e + byte list"
  DecodeModule :: "byte list \<Rightarrow> 'e + ('t, 's) Module"
  EncodeModule :: "('t, 's) Module \<Rightarrow> byte list"
  WriteFile :: "string \<Rightarrow> byte list \<Rightarrow> 'e option"

text \<open>
  How a call of \<^verbatim>\<open>patchWasm\<close> ends: it returns nil, it returns an error, or it panics.
\<close>

datatype 'e outcome = ReturnedNil | ReturnedErr 'e | Panicked

text \<open>
  The result of a run is its outcome together with the list of buffers handed to
  \<^verbatim>\<open>os.WriteFile\<close>, each with its destination path.
\<close>

definition patchWasm ::
  "('e, 't, 's) sys \<Rightarrow> string \<Rightarrow> string \<Rightarrow> 64 word \<Rightarrow> 'e outcome \<times> (string \<times> byte list) list" where
  "patchWasm sy inPath outPath initialPages =
     (case ReadFile sy inPath of
        Inl err \<Rightarrow> (ReturnedErr err, [])
      | Inr raw \<Rightarrow>
          (case DecodeModule sy raw of
             Inl err \<Rightarrow> (ReturnedErr err, [])
           | Inr m \<Rightarrow>
               (case patchModule initialPages m of
                  None \<Rightarrow> (Panicked, [])
                | Some m' \<Rightarrow>
                    (let out = EncodeModule sy m' in
                     (case WriteFile sy outPath out of
                        Some err \<Rightarrow> (ReturnedErr err, [(outPath, out)])
                      | None \<Rightarrow> (ReturnedNil, [(outPath, out)]))))))"

subsection \<open>The two cases of the switch, one at a time\<close>

text \<open>
  For the statements that speak of one rename rule without the other: the first case of
  the switch alone, and the second case alone.
\<close>

definition fdFilestatRule :: "'t Import \<Rightarrow> 't Import" where
  "fdFilestatRule imp =
     (if Name imp = ''fd_filestat_get'' then imp\<lparr>Name := ''fd_fdstat_get''\<rparr> else imp)"

definition pathFilestatRule :: "'t Import \<Rightarrow> 't Import" where
  "pathFilestatRule imp =
     (if Name imp = ''path_filestat_get''
        then imp\<lparr>Module := ''env'', Name := ''proxy_get_header_map_value''\<rparr>
      else imp)"

subsection \<open>A concrete module and environment\<close>

text \<open>
  A module with a memory of minimum 1 and declared maximum 2, and four imports: two
  entries named \<^verbatim>\<open>fd_filestat_get\<close> under different namespaces, one named
  \<^verbatim>\<open>path_filestat_get\<close> and one that no case of the switch names.
\<close>

definition demoImports :: "unit Import list" where
  "demoImports =
     [\<lparr>Module = ''wasi_snapshot_preview1'', Name = ''fd_filestat_get'', Desc = DescFunc 3\<rparr>,
      \<lparr>Module = ''other'', Name = ''fd_filestat_get'', Desc = DescFunc 5\<rparr>,
      \<lparr>Module = ''wasi_snapshot_preview1'', Name = ''path_filestat_get'', Desc = DescFunc 6\<rparr>,
      \<lparr>Module = ''env'', Name = ''proxy_log'', Desc = DescFunc 7\<rparr>]"

definition demoModule :: "(unit, nat) Module" where
  "demoModule =
     \<lparr>ImportSection = demoImports,
      MemorySection = Some \<lparr>Min_pages = 1, Max_pages = Some 2\<rparr>,
      OtherSections = 42\<rparr>"

text \<open>The same module without the imports of a given field name.\<close>

definition demoModuleWithout :: "string \<Rightarrow> (unit, nat) Module" where
  "demoModuleWithout name =
     demoModule\<lparr>ImportSection := filter (\<lambda>imp. Name imp \<noteq> name) demoImports\<rparr>"

text \<open>
  An environment with two input files, the second one cut off inside the magic prefix. A
  buffer that starts with the magic prefix decodes to the given module, any other buffer
  is a decode error; the encoder emits the low byte of the minimum page count followed
  by the number of imports, and every write succeeds.
\<close>

definition demoSys :: "(unit, nat) Module \<Rightarrow> (string, unit, nat) sys" where
  "demoSys m =
     \<lparr>ReadFile = (\<lambda>p. if p = ''build/mainraw.wasm'' then Inr [0, 97, 115, 109, 1, 0, 0, 0]
                       else if p = ''build/truncated.wasm'' then Inr [0, 97]
                       else Inl ''no such file''),
      DecodeModule = (\<lambda>raw. if take 4 raw = [0, 97, 115, 109] then Inr m else Inl ''invalid magic number''),
      EncodeModule = (\<lambda>m. [case MemorySection m of None \<Rightarrow> 0 | Some mem \<Rightarrow> ucast (Min_pages mem),
                            of_nat (length (ImportSection m))]),
      WriteFile = (\<lambda>p out. None)\<rparr>"

text \<open>The same environment on a full disk: every write fails.\<close>

definition demoSysDiskFull :: "(unit, nat) Module \<Rightarrow> (string, unit, nat) sys" where
  "demoSysDiskFull m = (demoSys m)\<lparr>WriteFile := (\<lambda>p out. Some ''disk full'')\<rparr>"

section \<open>Properties\<close>

subsection \<open>Helper facts\<close>

lemma renameImport_idem: "renameImport (renameImport imp) = renameImport imp"
  by (simp add: renameImport_def)

lemma renameImports_idem: "renameImports (renameImports m) = renameImports m"
  by (simp add: renameImports_def renameImport_idem)

lemma setMemoryMin_Some_iff:
  "setMemoryMin n m = Some m' \<longleftrightarrow>
     (\<exists>mem. MemorySection m = Some mem \<and> m' = m\<lparr>MemorySection := Some (mem\<lparr>Min_pages := ucast n\<rparr>)\<rparr>)"
  by (auto simp: setMemoryMin_def split: option.splits)

lemma setMemoryMin_twice:
  "setMemoryMin n m = Some m' \<Longrightarrow> setMemoryMin n m' = Some m'"
  by (auto simp: setMemoryMin_def split: option.splits)

lemma setMemoryMin_renameImports:
  "setMemoryMin n (renameImports m) = map_option renameImports (setMemoryMin n m)"
  by (simp add: setMemoryMin_def renameImports_def split: option.splits)

lemma ucast_initialPages: "uint (ucast (n :: 64 word) :: 32 word) = sint n mod 2 ^ 32"
proof -
  have "uint (ucast n :: 32 word) = take_bit 32 (uint n)"
    by (simp add: unsigned_ucast_eq)
  also have "\<dots> = take_bit 32 (signed_take_bit 63 (uint n))"
    by (simp add: take_bit_signed_take_bit)
  also have "\<dots> = take_bit 32 (sint n)"
    by (simp add: sint_uint)
  finally show ?thesis by (simp add: take_bit_eq_mod)
qed

lemma patchModule_None: "MemorySection m = None \<Longrightarrow> patchModule n m = None"
  by (simp add: patchModule_def setMemoryMin_def)

lemma patchModule_Some:
  "MemorySection m = Some mem \<Longrightarrow>
     patchModule n m = Some (renameImports (m\<lparr>MemorySection := Some (mem\<lparr>Min_pages := ucast n\<rparr>)\<rparr>))"
  by (simp add: patchModule_def setMemoryMin_def)

lemma patchWasm_decoded:
  "ReadFile sy inPath = Inr raw \<Longrightarrow> DecodeModule sy raw = Inr m \<Longrightarrow>
     patchWasm sy inPath outPath n =
       (case patchModule n m of
          None \<Rightarrow> (Panicked, [])
        | Some m' \<Rightarrow>
            (case WriteFile sy outPath (EncodeModule sy m') of
               Some err \<Rightarrow> ReturnedErr err
             | None \<Rightarrow> ReturnedNil,
             [(outPath, EncodeModule sy m')]))"
  by (simp add: patchWasm_def Let_def split: option.splits)

lemma demo_read:
  "ReadFile (demoSys m) ''build/mainraw.wasm'' = Inr [0, 97, 115, 109, 1, 0, 0, 0]"
  by (simp add: demoSys_def)

lemma demo_decode: "DecodeModule (demoSys m) [0, 97, 115, 109, 1, 0, 0, 0] = Inr m"
  by (simp add: demoSys_def)

subsection \<open>Idempotence\<close>

text \<open>
  Claim C8. Applying the resize-initial-memory edit (line 422) with page count \<open>N\<close> twice
  in sequence gives exactly the module that applying it once gives, for every decoded
  module and every \<open>N\<close>. On a module without a Memory section the first application
  already panics, and so does the sequence of two.
\<close>

theorem resize_twice_same:
  "Option.bind (setMemoryMin n m) (setMemoryMin n) = setMemoryMin n m"
  by (cases "setMemoryMin n m") (simp_all add: setMemoryMin_twice)

text \<open>
  Claim C10. The whole patch step (the memory resize followed by the import-rename loop)
  is idempotent: applying it twice gives the module that applying it once gives. The
  names the switch writes, \<^verbatim>\<open>fd_fdstat_get\<close> and \<^verbatim>\<open>proxy_get_header_map_value\<close>, are not
  among the names it tests for.
\<close>

theorem patch_twice_same:
  "Option.bind (patchModule n m) (patchModule n) = patchModule n m"
proof (cases "setMemoryMin n m")
  case None
  then show ?thesis by (simp add: patchModule_def)
next
  case (Some m')
  then have "setMemoryMin n m' = Some m'" by (rule setMemoryMin_twice)
  then have "setMemoryMin n (renameImports m') = Some (renameImports m')"
    by (simp add: setMemoryMin_renameImports)
  with Some show ?thesis by (simp add: patchModule_def renameImports_idem)
qed

subsection \<open>The resize of the initial memory\<close>

text \<open>
  Claim C1, as stated: the resize-initial-memory edit fails with an error, and no output
  buffer is produced, whenever the module declares no Memory section, or the page count
  is negative, or it exceeds the format's maximum page count (65536). The code has no
  such check. With the page count \<open>-1\<close> the run returns nil and writes a module whose
  minimum is \<open>2^32 - 1\<close> (low byte 255); with 65537 it returns nil and writes a module
  of minimum 65537 (low byte 1); without a Memory section it panics instead of
  returning an error.
\<close>

theorem resize_unchecked_counterexample:
  "sint (- 1 :: 64 word) < 0
   \<and> patchWasm (demoSys demoModule) ''build/mainraw.wasm'' ''build/main.wasm'' (- 1)
       = (ReturnedNil, [(''build/main.wasm'', [255, 4])])
   \<and> 65536 < sint (65537 :: 64 word)
   \<and> patchWasm (demoSys demoModule) ''build/mainraw.wasm'' ''build/main.wasm'' 65537
       = (ReturnedNil, [(''build/main.wasm'', [1, 4])])
   \<and> patchWasm (demoSys (demoModule\<lparr>MemorySection := None\<rparr>))
         ''build/mainraw.wasm'' ''build/main.wasm'' 2100
       = (Panicked, [])"
  by code_simp

text \<open>
  Claim C1, amended. Once the input is read and decoded: when the module declares no
  Memory section the run does not succeed and nothing is written; when it declares one,
  no page count is rejected: the minimum becomes the page count modulo \<open>2^32\<close> (so a
  negative or oversized count wraps), the patched module is encoded and handed to
  \<^verbatim>\<open>os.WriteFile\<close>, and the run returns what that write returns.
\<close>

theorem resize_accepts_any_count:
  assumes "ReadFile sy inPath = Inr raw" and "DecodeModule sy raw = Inr m"
  shows "(MemorySection m = None \<longrightarrow>
            fst (patchWasm sy inPath outPath n) \<noteq> ReturnedNil
          \<and> snd (patchWasm sy inPath outPath n) = [])
       \<and> (\<forall>mem. MemorySection m = Some mem \<longrightarrow>
            (\<exists>m'. patchModule n m = Some m'
               \<and> map_option (\<lambda>mem'. uint (Min_pages mem')) (MemorySection m')
                   = Some (sint n mod 2 ^ 32)
               \<and> patchWasm sy inPath outPath n =
                   (case WriteFile sy outPath (EncodeModule sy m') of
                      Some err \<Rightarrow> ReturnedErr err
                    | None \<Rightarrow> ReturnedNil,
                    [(outPath, EncodeModule sy m')])))"
proof (intro conjI impI allI)
  assume "MemorySection m = None"
  then have "patchWasm sy inPath outPath n = (Panicked, [])"
    using assms by (simp add: patchWasm_decoded patchModule_None)
  then show "fst (patchWasm sy inPath outPath n) \<noteq> ReturnedNil"
    and "snd (patchWasm sy inPath outPath n) = []" by simp_all
next
  fix mem assume mem: "MemorySection m = Some mem"
  let ?m' = "renameImports (m\<lparr>MemorySection := Some (mem\<lparr>Min_pages := ucast n\<rparr>)\<rparr>)"
  have 1: "patchModule n m = Some ?m'" using mem by (rule patchModule_Some)
  have 2: "map_option (\<lambda>mem'. uint (Min_pages mem')) (MemorySection ?m')
             = Some (sint n mod 2 ^ 32)"
    by (simp add: renameImports_def ucast_initialPages)
  have 3: "patchWasm sy inPath outPath n =
             (case WriteFile sy outPath (EncodeModule sy ?m') of
                Some err \<Rightarrow> ReturnedErr err
              | None \<Rightarrow> ReturnedNil,
              [(outPath, EncodeModule sy ?m')])"
    using assms 1 by (simp add: patchWasm_decoded)
  from 1 2 3 show "\<exists>m'. patchModule n m = Some m'
               \<and> map_option (\<lambda>mem'. uint (Min_pages mem')) (MemorySection m')
                   = Some (sint n mod 2 ^ 32)
               \<and> patchWasm sy inPath outPath n =
                   (case WriteFile sy outPath (EncodeModule sy m') of
                      Some err \<Rightarrow> ReturnedErr err
                    | None \<Rightarrow> ReturnedNil,
                    [(outPath, EncodeModule sy m')])"
    by blast
qed

theorem resize_accepts_any_count_witness:
  "ReadFile (demoSys demoModule) ''build/mainraw.wasm'' = Inr [0, 97, 115, 109, 1, 0, 0, 0]
   \<and> DecodeModule (demoSys demoModule) [0, 97, 115, 109, 1, 0, 0, 0] = Inr demoModule
   \<and> MemorySection demoModule = Some \<lparr>Min_pages = 1, Max_pages = Some 2\<rparr>
   \<and> (\<exists>m'. patchModule 4294967298 demoModule = Some m'
         \<and> map_option (\<lambda>mem'. uint (Min_pages mem')) (MemorySection m') = Some 2
         \<and> patchWasm (demoSys demoModule) ''build/mainraw.wasm'' ''build/main.wasm'' 4294967298
             = (ReturnedNil, [(''build/main.wasm'', EncodeModule (demoSys demoModule) m')]))
   \<and> MemorySection (demoModule\<lparr>MemorySection := None\<rparr>) = None
   \<and> snd (patchWasm (demoSys (demoModule\<lparr>MemorySection := None\<rparr>))
            ''build/mainraw.wasm'' ''build/main.wasm'' 4294967298) = []"
proof -
  have mem: "MemorySection demoModule = Some \<lparr>Min_pages = 1, Max_pages = Some 2\<rparr>"
    by (simp add: demoModule_def)
  have none: "MemorySection (demoModule\<lparr>MemorySection := None\<rparr>) = None" by simp
  have wr: "WriteFile (demoSys demoModule) p out = None" for p out
    by (simp add: demoSys_def)
  have val: "sint (4294967298 :: 64 word) mod 2 ^ 32 = 2" by simp
  note a = resize_accepts_any_count [OF demo_read demo_decode,
      of demoModule "''build/main.wasm''" 4294967298]
  note b = resize_accepts_any_count [OF demo_read demo_decode,
      of "demoModule\<lparr>MemorySection := None\<rparr>" "''build/main.wasm''" 4294967298]
  from a mem have "\<exists>m'. patchModule 4294967298 demoModule = Some m'
         \<and> map_option (\<lambda>mem'. uint (Min_pages mem')) (MemorySection m') = Some 2
         \<and> patchWasm (demoSys demoModule) ''build/mainraw.wasm'' ''build/main.wasm'' 4294967298
             = (ReturnedNil, [(''build/main.wasm'', EncodeModule (demoSys demoModule) m')])"
    unfolding wr val by simp
  moreover from b none
  have "snd (patchWasm (demoSys (demoModule\<lparr>MemorySection := None\<rparr>))
              ''build/mainraw.wasm'' ''build/main.wasm'' 4294967298) = []"
    by blast
  ultimately show ?thesis using mem none demo_read demo_decode by blast
qed

text \<open>
  Claim C2, as stated: for a memory with declared maximum \<open>M\<close>, the resize with a new
  minimum \<open>N > M\<close> raises the maximum to \<open>N\<close>, so that minimum \<open>\<le>\<close> maximum holds
  afterwards. Line 422 writes the minimum and nothing else: on a memory of minimum 1 and
  maximum 2, the resize to 3 pages leaves minimum 3 and maximum 2.
\<close>

theorem resize_maximum_counterexample:
  "Option.bind (setMemoryMin 3 demoModule) MemorySection
     = Some \<lparr>Min_pages = 3, Max_pages = Some 2\<rparr>
   \<and> Option.bind (patchModule 3 demoModule) MemorySection
     = Some \<lparr>Min_pages = 3, Max_pages = Some 2\<rparr>
   \<and> (2 :: 32 word) < 3"
  by code_simp

text \<open>
  Claim C2, amended. For a module whose Memory section holds an entry with declared
  maximum \<open>M\<close>, the resize to \<open>N\<close> pages sets the minimum of that entry to \<open>N\<close>
  modulo \<open>2^32\<close> and leaves its maximum at \<open>M\<close>, whatever \<open>N\<close> is, and the same
  holds after the whole patch step: the maximum is never raised. Hence whenever
  \<open>M < N < 2^32\<close> the edit leaves minimum \<open>>\<close> maximum. The resize leaves the Import
  section as it is, and the patch step leaves every import's description as it is, so the
  memory type of an imported memory is not changed at all.
\<close>

theorem resize_keeps_maximum:
  assumes "MemorySection m = Some mem" and "Max_pages mem = Some M"
  shows "Option.bind (setMemoryMin n m) MemorySection
           = Some \<lparr>Min_pages = ucast n, Max_pages = Some M\<rparr>
       \<and> Option.bind (patchModule n m) MemorySection
           = Some \<lparr>Min_pages = ucast n, Max_pages = Some M\<rparr>
       \<and> (\<exists>mem'. Option.bind (patchModule n m) MemorySection = Some mem'
             \<and> uint (Min_pages mem') = sint n mod 2 ^ 32
             \<and> Max_pages mem' = Some M
             \<and> (uint M < sint n \<and> sint n < 2 ^ 32 \<longrightarrow> M < Min_pages mem'))
       \<and> map_option ImportSection (setMemoryMin n m) = Some (ImportSection m)
       \<and> map_option (\<lambda>m'. map Desc (ImportSection m')) (patchModule n m)
           = Some (map Desc (ImportSection m))"
proof -
  let ?mem' = "\<lparr>Min_pages = ucast n, Max_pages = Some M\<rparr>"
  have 1: "Option.bind (setMemoryMin n m) MemorySection = Some ?mem'"
    and 2: "Option.bind (patchModule n m) MemorySection = Some ?mem'"
    using assms by (simp_all add: patchModule_def setMemoryMin_def renameImports_def)
  have 3: "uint (Min_pages ?mem') = sint n mod 2 ^ 32"
    by (simp add: ucast_initialPages)
  have 4: "M < Min_pages ?mem'" if "uint M < sint n \<and> sint n < 2 ^ 32"
  proof -
    have "0 \<le> uint M" by simp
    with that have "0 \<le> sint n" and "sint n < 2 ^ 32" by linarith+
    then have "sint n mod 2 ^ 32 = sint n" by simp
    with 3 that have "uint M < uint (Min_pages ?mem')" by simp
    then show ?thesis by (simp only: word_less_def)
  qed
  have 5: "map_option ImportSection (setMemoryMin n m) = Some (ImportSection m)"
    using assms by (simp add: setMemoryMin_def)
  have d: "Desc (renameImport imp) = Desc imp" for imp :: "'a Import"
    by (simp add: renameImport_def)
  have 6: "map_option (\<lambda>m'. map Desc (ImportSection m')) (patchModule n m)
             = Some (map Desc (ImportSection m))"
    using assms by (simp add: patchModule_def setMemoryMin_def renameImports_def d)
  have 7: "Max_pages ?mem' = Some M" by simp
  from 2 3 4 7 have "\<exists>mem'. Option.bind (patchModule n m) MemorySection = Some mem'
             \<and> uint (Min_pages mem') = sint n mod 2 ^ 32
             \<and> Max_pages mem' = Some M
             \<and> (uint M < sint n \<and> sint n < 2 ^ 32 \<longrightarrow> M < Min_pages mem')"
    by blast
  with 1 2 5 6 show ?thesis by blast
qed

theorem resize_keeps_maximum_witness:
  "MemorySection (demoModule\<lparr>ImportSection :=
       [\<lparr>Module = ''env'', Name = ''memory'',
         Desc = DescMem \<lparr>Min_pages = 1, Max_pages = Some 4\<rparr>\<rparr>]\<rparr>)
     = Some \<lparr>Min_pages = 1, Max_pages = Some 2\<rparr>
   \<and> Max_pages \<lparr>Min_pages = 1, Max_pages = Some 2\<rparr> = Some 2
   \<and> uint (2 :: 32 word) < sint (2100 :: 64 word) \<and> sint (2100 :: 64 word) < 2 ^ 32
   \<and> Option.bind (patchModule 2100 (demoModule\<lparr>ImportSection :=
          [\<lparr>Module = ''env'', Name = ''memory'',
            Desc = DescMem \<lparr>Min_pages = 1, Max_pages = Some 4\<rparr>\<rparr>]\<rparr>)) MemorySection
       = Some \<lparr>Min_pages = 2100, Max_pages = Some 2\<rparr>
   \<and> (2 :: 32 word) < 2100
   \<and> map_option (\<lambda>m'. map Desc (ImportSection m')) (patchModule 2100 (demoModule\<lparr>ImportSection :=
          [\<lparr>Module = ''env'', Name = ''memory'',
            Desc = DescMem \<lparr>Min_pages = 1, Max_pages = Some 4\<rparr>\<rparr>]\<rparr>))
       = Some [DescMem \<lparr>Min_pages = 1, Max_pages = Some 4\<rparr>]"
proof -
  let ?m = "demoModule\<lparr>ImportSection :=
       [\<lparr>Module = ''env'', Name = ''memory'',
         Desc = DescMem \<lparr>Min_pages = 1, Max_pages = Some 4\<rparr>\<rparr>]\<rparr>"
  have mem: "MemorySection ?m = Some \<lparr>Min_pages = 1, Max_pages = Some 2\<rparr>"
    by (simp add: demoModule_def)
  have mx: "Max_pages \<lparr>Min_pages = 1, Max_pages = Some 2\<rparr> = Some 2" by simp
  have b: "uint (2 :: 32 word) < sint (2100 :: 64 word) \<and> sint (2100 :: 64 word) < 2 ^ 32"
    by simp
  have c: "(ucast (2100 :: 64 word) :: 32 word) = 2100" by simp
  have ds: "map Desc (ImportSection ?m) = [DescMem \<lparr>Min_pages = 1, Max_pages = Some 4\<rparr>]"
    by simp
  note t = resize_keeps_maximum [OF mem mx, of 2100]
  from t have r: "Option.bind (patchModule 2100 ?m) MemorySection
                    = Some \<lparr>Min_pages = 2100, Max_pages = Some 2\<rparr>"
    by (simp only: c)
  from t b r have lt: "(2 :: 32 word) < 2100" by auto
  from t have "map_option (\<lambda>m'. map Desc (ImportSection m')) (patchModule 2100 ?m)
                 = Some (map Desc (ImportSection ?m))"
    by blast
  then have i: "map_option (\<lambda>m'. map Desc (ImportSection m')) (patchModule 2100 ?m)
                 = Some [DescMem \<lparr>Min_pages = 1, Max_pages = Some 4\<rparr>]"
    by (simp only: ds)
  from mem mx b r lt i show ?thesis by blast
qed

subsection \<open>The renaming of imports\<close>

text \<open>
  Claim C3, as stated: a rule rewrites an entry only if both the entry's module
  namespace and its field name equal the rule's; an entry whose field name matches but
  whose namespace differs is left unchanged. The switch tests \<^verbatim>\<open>imp.Name\<close> alone: for each
  of its two cases, two entries with the case's field name and two different namespaces
  are both rewritten, so whatever namespace a rule is given, an entry outside it is
  rewritten.
\<close>

theorem rename_namespace_counterexample:
  "renameImport \<lparr>Module = ''wasi_snapshot_preview1'', Name = ''fd_filestat_get'',
                 Desc = DescFunc 3 :: unit ImportDesc\<rparr>
     = \<lparr>Module = ''wasi_snapshot_preview1'', Name = ''fd_fdstat_get'', Desc = DescFunc 3\<rparr>
   \<and> renameImport \<lparr>Module = ''other'', Name = ''fd_filestat_get'',
                   Desc = DescFunc 5 :: unit ImportDesc\<rparr>
     = \<lparr>Module = ''other'', Name = ''fd_fdstat_get'', Desc = DescFunc 5\<rparr>
   \<and> renameImport \<lparr>Module = ''wasi_snapshot_preview1'', Name = ''path_filestat_get'',
                   Desc = DescFunc 3 :: unit ImportDesc\<rparr>
     = \<lparr>Module = ''env'', Name = ''proxy_get_header_map_value'', Desc = DescFunc 3\<rparr>
   \<and> renameImport \<lparr>Module = ''other'', Name = ''path_filestat_get'',
                   Desc = DescFunc 5 :: unit ImportDesc\<rparr>
     = \<lparr>Module = ''env'', Name = ''proxy_get_header_map_value'', Desc = DescFunc 5\<rparr>"
  by (simp add: renameImport_def)

text \<open>
  Claim C3, amended. An entry is rewritten exactly when its field name equals the old
  field name of one of the two rules (\<^verbatim>\<open>fd_filestat_get\<close>, \<^verbatim>\<open>path_filestat_get\<close>); its
  module namespace plays no part: replacing the namespace of an entry by any other
  string does not change whether the entry is rewritten.
\<close>

theorem rename_matches_field_only:
  "(renameImport imp = imp)
     = (Name imp \<noteq> ''fd_filestat_get'' \<and> Name imp \<noteq> ''path_filestat_get'')
   \<and> (renameImport (imp\<lparr>Module := ns\<rparr>) = imp\<lparr>Module := ns\<rparr>) = (renameImport imp = imp)"
proof -
  have a: "(renameImport imp = imp)
             = (Name imp \<noteq> ''fd_filestat_get'' \<and> Name imp \<noteq> ''path_filestat_get'')"
    for imp :: "'a Import"
  proof (cases "Name imp = ''fd_filestat_get''")
    case True
    then have "Name (renameImport imp) = ''fd_fdstat_get''" by (simp add: renameImport_def)
    with True have "Name (renameImport imp) \<noteq> Name imp" by simp
    then have "renameImport imp \<noteq> imp" by auto
    with True show ?thesis by simp
  next
    case False
    show ?thesis
    proof (cases "Name imp = ''path_filestat_get''")
      case True
      then have "Name (renameImport imp) = ''proxy_get_header_map_value''"
        by (simp add: renameImport_def)
      with True have "Name (renameImport imp) \<noteq> Name imp" by simp
      then have "renameImport imp \<noteq> imp" by auto
      with True show ?thesis by simp
    next
      case False
      with \<open>Name imp \<noteq> ''fd_filestat_get''\<close> show ?thesis by (simp add: renameImport_def)
    qed
  qed
  show ?thesis by (simp add: a)
qed

text \<open>
  Claim C4, as stated: when two or more entries match the same rule, only the first one
  in section order is rewritten and every later one is left unchanged. The loop has no
  \<^verbatim>\<open>break\<close>: of two entries named \<^verbatim>\<open>fd_filestat_get\<close> under the same namespace, both are
  rewritten.
\<close>

theorem rename_first_only_counterexample:
  "ImportSection (renameImports
     \<lparr>ImportSection =
        [\<lparr>Module = ''wasi_snapshot_preview1'', Name = ''fd_filestat_get'',
          Desc = DescFunc 3 :: unit ImportDesc\<rparr>,
         \<lparr>Module = ''wasi_snapshot_preview1'', Name = ''fd_filestat_get'', Desc = DescFunc 4\<rparr>],
      MemorySection = None, OtherSections = ()\<rparr>)
   = [\<lparr>Module = ''wasi_snapshot_preview1'', Name = ''fd_fdstat_get'', Desc = DescFunc 3\<rparr>,
      \<lparr>Module = ''wasi_snapshot_preview1'', Name = ''fd_fdstat_get'', Desc = DescFunc 4\<rparr>]"
  by (simp add: renameImports_def renameImport_def)

text \<open>
  Claim C4, amended. Applying the rename pass rewrites every entry that matches a rule,
  each at its own position, in section order: at every position of the Import section
  the entry after the pass is the switch applied to the entry before it, so an entry
  named \<^verbatim>\<open>fd_filestat_get\<close> is renamed to \<^verbatim>\<open>fd_fdstat_get\<close> and an entry named
  \<^verbatim>\<open>path_filestat_get\<close> becomes \<^verbatim>\<open>env\<close>/\<^verbatim>\<open>proxy_get_header_map_value\<close>, whether or not an
  earlier entry matched the same rule.
\<close>

theorem rename_every_match:
  "\<forall>i < length (ImportSection m).
      ImportSection (renameImports m) ! i = renameImport (ImportSection m ! i)
    \<and> (Name (ImportSection m ! i) = ''fd_filestat_get'' \<longrightarrow>
         ImportSection (renameImports m) ! i = (ImportSection m ! i)\<lparr>Name := ''fd_fdstat_get''\<rparr>)
    \<and> (Name (ImportSection m ! i) = ''path_filestat_get'' \<longrightarrow>
         ImportSection (renameImports m) ! i =
           (ImportSection m ! i)\<lparr>Module := ''env'', Name := ''proxy_get_header_map_value''\<rparr>)"
  by (simp add: renameImports_def renameImport_def)

theorem rename_every_match_witness:
  "(1 :: nat) < length (ImportSection demoModule)
   \<and> Name (ImportSection demoModule ! 0) = ''fd_filestat_get''
   \<and> Name (ImportSection demoModule ! 1) = ''fd_filestat_get''
   \<and> ImportSection (renameImports demoModule) ! 1
       = \<lparr>Module = ''other'', Name = ''fd_fdstat_get'', Desc = DescFunc 5\<rparr>
   \<and> (2 :: nat) < length (ImportSection demoModule)
   \<and> Name (ImportSection demoModule ! 2) = ''path_filestat_get''
   \<and> ImportSection (renameImports demoModule) ! 2
       = \<lparr>Module = ''env'', Name = ''proxy_get_header_map_value'', Desc = DescFunc 6\<rparr>"
proof -
  have len: "length (ImportSection demoModule) = 4"
    by (simp add: demoModule_def demoImports_def)
  have e0: "Name (ImportSection demoModule ! 0) = ''fd_filestat_get''"
    by (simp add: demoModule_def demoImports_def)
  have e1: "ImportSection demoModule ! 1
      = \<lparr>Module = ''other'', Name = ''fd_filestat_get'', Desc = DescFunc 5\<rparr>"
    by (simp add: demoModule_def demoImports_def)
  have e2: "ImportSection demoModule ! 2
      = \<lparr>Module = ''wasi_snapshot_preview1'', Name = ''path_filestat_get'', Desc = DescFunc 6\<rparr>"
    by (simp add: demoModule_def demoImports_def)
  have l1: "(1 :: nat) < length (ImportSection demoModule)"
    and l2: "(2 :: nat) < length (ImportSection demoModule)"
    by (simp_all add: len)
  have n1: "Name (ImportSection demoModule ! 1) = ''fd_filestat_get''"
    by (simp only: e1 Import.simps)
  have n2: "Name (ImportSection demoModule ! 2) = ''path_filestat_get''"
    by (simp only: e2 Import.simps)
  from rename_every_match [of demoModule, rule_format, OF l1] n1
  have "ImportSection (renameImports demoModule) ! 1
          = (ImportSection demoModule ! 1)\<lparr>Name := ''fd_fdstat_get''\<rparr>"
    by blast
  then have r1: "ImportSection (renameImports demoModule) ! 1
       = \<lparr>Module = ''other'', Name = ''fd_fdstat_get'', Desc = DescFunc 5\<rparr>"
    by (simp only: e1 Import.simps)
  from rename_every_match [of demoModule, rule_format, OF l2] n2
  have "ImportSection (renameImports demoModule) ! 2
          = (ImportSection demoModule ! 2)\<lparr>Module := ''env'', Name := ''proxy_get_header_map_value''\<rparr>"
    by blast
  then have r2: "ImportSection (renameImports demoModule) ! 2
       = \<lparr>Module = ''env'', Name = ''proxy_get_header_map_value'', Desc = DescFunc 6\<rparr>"
    by (simp only: e2 Import.simps)
  from l1 l2 e0 n1 n2 r1 r2 show ?thesis by blast
qed

text \<open>
  Claim C5. The rename pass changes neither the number of import entries, nor the
  position of any entry (the entry at position \<open>i\<close> afterwards is the switch applied
  to the entry at position \<open>i\<close> before), nor any entry's description, hence neither its
  kind nor its function-type index; it leaves the Memory section and all other sections
  as they are. The whole patch step, when it completes, leaves every section other than
  the Import and Memory sections unchanged, and the descriptions of the imports too.
  This holds for any number of import entries, two or more included.
\<close>

theorem rename_preserves_structure:
  "length (ImportSection (renameImports m)) = length (ImportSection m)
   \<and> (\<forall>i < length (ImportSection m).
        ImportSection (renameImports m) ! i = renameImport (ImportSection m ! i)
      \<and> Desc (ImportSection (renameImports m) ! i) = Desc (ImportSection m ! i)
      \<and> descKind (Desc (ImportSection (renameImports m) ! i))
          = descKind (Desc (ImportSection m ! i)))
   \<and> map Desc (ImportSection (renameImports m)) = map Desc (ImportSection m)
   \<and> MemorySection (renameImports m) = MemorySection m
   \<and> OtherSections (renameImports m) = OtherSections m
   \<and> (\<forall>m'. patchModule n m = Some m' \<longrightarrow>
        OtherSections m' = OtherSections m
      \<and> length (ImportSection m') = length (ImportSection m)
      \<and> map Desc (ImportSection m') = map Desc (ImportSection m))"
proof -
  have d: "Desc (renameImport imp) = Desc imp" for imp :: "'a Import"
    by (simp add: renameImport_def)
  have 1: "length (ImportSection (renameImports m)) = length (ImportSection m)"
    by (simp add: renameImports_def)
  have 2: "\<forall>i < length (ImportSection m).
        ImportSection (renameImports m) ! i = renameImport (ImportSection m ! i)
      \<and> Desc (ImportSection (renameImports m) ! i) = Desc (ImportSection m ! i)
      \<and> descKind (Desc (ImportSection (renameImports m) ! i))
          = descKind (Desc (ImportSection m ! i))"
    by (simp add: renameImports_def d)
  have 3: "map Desc (ImportSection (renameImports m)) = map Desc (ImportSection m)"
    by (simp add: renameImports_def d)
  have 4: "MemorySection (renameImports m) = MemorySection m"
    and 5: "OtherSections (renameImports m) = OtherSections m"
    by (simp_all add: renameImports_def)
  have 6: "\<forall>m'. patchModule n m = Some m' \<longrightarrow>
        OtherSections m' = OtherSections m
      \<and> length (ImportSection m') = length (ImportSection m)
      \<and> map Desc (ImportSection m') = map Desc (ImportSection m)"
    by (auto simp: patchModule_def setMemoryMin_def renameImports_def d
             split: option.splits)
  from 1 2 3 4 5 6 show ?thesis by blast
qed

theorem rename_preserves_structure_witness:
  "2 \<le> length (ImportSection demoModule)
   \<and> (0 :: nat) < length (ImportSection demoModule)
   \<and> Name (ImportSection (renameImports demoModule) ! 0) = ''fd_fdstat_get''
   \<and> Desc (ImportSection (renameImports demoModule) ! 0) = DescFunc 3
   \<and> patchModule 2100 demoModule
       = Some (renameImports
                 (demoModule\<lparr>MemorySection := Some \<lparr>Min_pages = 2100, Max_pages = Some 2\<rparr>\<rparr>))
   \<and> OtherSections (renameImports
         (demoModule\<lparr>MemorySection := Some \<lparr>Min_pages = 2100, Max_pages = Some 2\<rparr>\<rparr>)) = 42
   \<and> map Desc (ImportSection (renameImports
         (demoModule\<lparr>MemorySection := Some \<lparr>Min_pages = 2100, Max_pages = Some 2\<rparr>\<rparr>)))
       = [DescFunc 3, DescFunc 5, DescFunc 6, DescFunc 7]"
proof -
  let ?m' = "renameImports
               (demoModule\<lparr>MemorySection := Some \<lparr>Min_pages = 2100, Max_pages = Some 2\<rparr>\<rparr>)"
  have len: "length (ImportSection demoModule) = 4"
    by (simp add: demoModule_def demoImports_def)
  have l0: "(0 :: nat) < length (ImportSection demoModule)" by (simp add: len)
  have e0: "ImportSection demoModule ! 0
      = \<lparr>Module = ''wasi_snapshot_preview1'', Name = ''fd_filestat_get'', Desc = DescFunc 3\<rparr>"
    by (simp add: demoModule_def demoImports_def)
  have p: "patchModule 2100 demoModule = Some ?m'"
    by (simp add: patchModule_def setMemoryMin_def demoModule_def)
  have ds: "map Desc (ImportSection demoModule) = [DescFunc 3, DescFunc 5, DescFunc 6, DescFunc 7]"
    by (simp add: demoModule_def demoImports_def)
  have os: "OtherSections demoModule = 42" by (simp add: demoModule_def)
  note t = rename_preserves_structure [of demoModule 2100]
  from t l0 have "ImportSection (renameImports demoModule) ! 0
                    = renameImport (ImportSection demoModule ! 0)"
    and d0: "Desc (ImportSection (renameImports demoModule) ! 0)
               = Desc (ImportSection demoModule ! 0)"
    by blast+
  then have n0: "Name (ImportSection (renameImports demoModule) ! 0) = ''fd_fdstat_get''"
    by (simp add: e0 renameImport_def)
  from d0 have d0': "Desc (ImportSection (renameImports demoModule) ! 0) = DescFunc 3"
    by (simp add: e0)
  from t p have "OtherSections ?m' = OtherSections demoModule"
    and "map Desc (ImportSection ?m') = map Desc (ImportSection demoModule)"
    by blast+
  then have o: "OtherSections ?m' = 42"
    and m: "map Desc (ImportSection ?m') = [DescFunc 3, DescFunc 5, DescFunc 6, DescFunc 7]"
    by (simp_all only: ds os)
  from len l0 n0 d0' p o m show ?thesis by simp
qed

subsection \<open>Failures of the run\<close>

text \<open>
  Claim C6. If decoding the input buffer fails, the run ends by returning the decoder's
  error (lines 418-420) and no output buffer is written. Neither the encoder nor
  \<^verbatim>\<open>os.WriteFile\<close> is reached: the result is the same whatever these two would do. What
  makes the decoder fail (bad magic or version, truncation, malformed LEB128, section
  overrun) is decided inside the wabin library.
\<close>

theorem decode_failure_aborts:
  assumes "ReadFile sy inPath = Inr raw" and "DecodeModule sy raw = Inl err"
  shows "patchWasm sy inPath outPath n = (ReturnedErr err, [])
       \<and> (\<forall>enc wr. patchWasm (sy\<lparr>EncodeModule := enc, WriteFile := wr\<rparr>) inPath outPath n
                     = (ReturnedErr err, []))"
  using assms by (simp add: patchWasm_def)

theorem decode_failure_aborts_witness:
  "ReadFile (demoSys demoModule) ''build/truncated.wasm'' = Inr [0, 97]
   \<and> DecodeModule (demoSys demoModule) [0, 97] = Inl ''invalid magic number''
   \<and> patchWasm (demoSys demoModule) ''build/truncated.wasm'' ''build/main.wasm'' 2100
       = (ReturnedErr ''invalid magic number'', [])"
proof -
  have r: "ReadFile (demoSys demoModule) ''build/truncated.wasm'' = Inr [0, 97]"
    by (simp add: demoSys_def)
  have d: "DecodeModule (demoSys demoModule) [0, 97] = Inl ''invalid magic number''"
    by (simp add: demoSys_def)
  from decode_failure_aborts [OF r d, of "''build/main.wasm''" 2100] r d
  show ?thesis by blast
qed

text \<open>
  Claim C7, as stated: for every module and every rule whose (namespace, field) pair
  matches no import entry, the run still succeeds and the output module equals the input
  apart from the effects of the other rules. The switch matches by field name alone, so
  a rule whose pair is absent still rewrites an entry that has its field name under
  another namespace: of two modules whose only import is \<^verbatim>\<open>fd_filestat_get\<close>, under one
  namespace in the first and under another in the second, both are changed by the patch
  (the page count given is the minimum they already have, and no entry is named
  \<^verbatim>\<open>path_filestat_get\<close>), although whatever namespace the rule is given, its pair is absent
  from one of them. And on a module without a Memory section, whose only import no rule
  names, the run panics.
\<close>

theorem missing_pair_counterexample:
  "patchModule 1
     \<lparr>ImportSection = [\<lparr>Module = ''other'', Name = ''fd_filestat_get'',
                         Desc = DescFunc 5 :: unit ImportDesc\<rparr>],
      MemorySection = Some \<lparr>Min_pages = 1, Max_pages = None\<rparr>, OtherSections = ()\<rparr>
   = Some
     \<lparr>ImportSection = [\<lparr>Module = ''other'', Name = ''fd_fdstat_get'', Desc = DescFunc 5\<rparr>],
      MemorySection = Some \<lparr>Min_pages = 1, Max_pages = None\<rparr>, OtherSections = ()\<rparr>
   \<and> patchModule 1
     \<lparr>ImportSection = [\<lparr>Module = ''wasi_snapshot_preview1'', Name = ''fd_filestat_get'',
                         Desc = DescFunc 5 :: unit ImportDesc\<rparr>],
      MemorySection = Some \<lparr>Min_pages = 1, Max_pages = None\<rparr>, OtherSections = ()\<rparr>
   = Some
     \<lparr>ImportSection = [\<lparr>Module = ''wasi_snapshot_preview1'', Name = ''fd_fdstat_get'',
                         Desc = DescFunc 5\<rparr>],
      MemorySection = Some \<lparr>Min_pages = 1, Max_pages = None\<rparr>, OtherSections = ()\<rparr>
   \<and> map Name (ImportSection (demoModule\<lparr>ImportSection := drop 3 demoImports,
                                              MemorySection := None\<rparr>)) = [''proxy_log'']
   \<and> patchWasm (demoSys (demoModule\<lparr>ImportSection := drop 3 demoImports,
                                        MemorySection := None\<rparr>))
         ''build/mainraw.wasm'' ''build/main.wasm'' 2100
     = (Panicked, [])"
  by code_simp

text \<open>
  Claim C7, amended, with a rule counted as matching no entry when no entry has its
  field name, under any namespace. Take a module that declares a Memory section, in a
  run whose input is read and decoded and whose destination can be written. Then the run
  returns nil and writes the encoding of the patched module, whether or not a rule
  matches. In the patched module every section
  other than Import and Memory is the input's and the memory is the input's with the
  minimum set to the low 32 bits of the page count; if no entry has the field name
  \<^verbatim>\<open>fd_filestat_get\<close> the Import section is the input's with the \<^verbatim>\<open>path_filestat_get\<close>
  rule alone applied; if no entry has the field name \<^verbatim>\<open>path_filestat_get\<close> it is the
  input's with the \<^verbatim>\<open>fd_filestat_get\<close> rule alone applied; if neither field name
  occurs it is the input's Import section itself.
\<close>

theorem missing_rule_skipped:
  assumes "ReadFile sy inPath = Inr raw" and "DecodeModule sy raw = Inr m"
    and "MemorySection m = Some mem" and "\<And>out. WriteFile sy outPath out = None"
  shows "\<exists>m'. patchModule n m = Some m'
           \<and> patchWasm sy inPath outPath n = (ReturnedNil, [(outPath, EncodeModule sy m')])
           \<and> OtherSections m' = OtherSections m
           \<and> MemorySection m' = Some (mem\<lparr>Min_pages := ucast n\<rparr>)
           \<and> ((\<forall>imp \<in> set (ImportSection m). Name imp \<noteq> ''fd_filestat_get'') \<longrightarrow>
                 ImportSection m' = map pathFilestatRule (ImportSection m))
           \<and> ((\<forall>imp \<in> set (ImportSection m). Name imp \<noteq> ''path_filestat_get'') \<longrightarrow>
                 ImportSection m' = map fdFilestatRule (ImportSection m))
           \<and> ((\<forall>imp \<in> set (ImportSection m).
                   Name imp \<noteq> ''fd_filestat_get'' \<and> Name imp \<noteq> ''path_filestat_get'') \<longrightarrow>
                 ImportSection m' = ImportSection m)"
proof -
  let ?m' = "renameImports (m\<lparr>MemorySection := Some (mem\<lparr>Min_pages := ucast n\<rparr>)\<rparr>)"
  have p: "patchModule n m = Some ?m'"
    using assms(3) by (rule patchModule_Some)
  have run: "patchWasm sy inPath outPath n = (ReturnedNil, [(outPath, EncodeModule sy ?m')])"
    using assms(1,2,4) p by (simp add: patchWasm_decoded)
  have os: "OtherSections ?m' = OtherSections m"
    and ms: "MemorySection ?m' = Some (mem\<lparr>Min_pages := ucast n\<rparr>)"
    and imps: "ImportSection ?m' = map renameImport (ImportSection m)"
    by (simp_all add: renameImports_def)
  have a: "ImportSection ?m' = map pathFilestatRule (ImportSection m)"
    if "\<forall>imp \<in> set (ImportSection m). Name imp \<noteq> ''fd_filestat_get''"
    using that by (simp add: imps renameImport_def pathFilestatRule_def)
  have b: "ImportSection ?m' = map fdFilestatRule (ImportSection m)"
    if "\<forall>imp \<in> set (ImportSection m). Name imp \<noteq> ''path_filestat_get''"
    using that by (simp add: imps renameImport_def fdFilestatRule_def)
  have c: "ImportSection ?m' = ImportSection m"
    if "\<forall>imp \<in> set (ImportSection m).
          Name imp \<noteq> ''fd_filestat_get'' \<and> Name imp \<noteq> ''path_filestat_get''"
    using that by (simp add: imps renameImport_def map_idI)
  from p run os ms a b c show ?thesis by blast
qed

theorem missing_rule_skipped_witness:
  "ReadFile (demoSys (demoModuleWithout ''fd_filestat_get'')) ''build/mainraw.wasm''
     = Inr [0, 97, 115, 109, 1, 0, 0, 0]
   \<and> DecodeModule (demoSys (demoModuleWithout ''fd_filestat_get'')) [0, 97, 115, 109, 1, 0, 0, 0]
     = Inr (demoModuleWithout ''fd_filestat_get'')
   \<and> MemorySection (demoModuleWithout ''fd_filestat_get'')
     = Some \<lparr>Min_pages = 1, Max_pages = Some 2\<rparr>
   \<and> WriteFile (demoSys (demoModuleWithout ''fd_filestat_get'')) ''build/main.wasm'' [52, 2] = None
   \<and> map Name (ImportSection (demoModuleWithout ''fd_filestat_get''))
     = [''path_filestat_get'', ''proxy_log'']
   \<and> patchWasm (demoSys (demoModuleWithout ''fd_filestat_get''))
         ''build/mainraw.wasm'' ''build/main.wasm'' 2100
     = (ReturnedNil, [(''build/main.wasm'', [52, 2])])
   \<and> map_option ImportSection (patchModule 2100 (demoModuleWithout ''fd_filestat_get''))
     = Some [\<lparr>Module = ''env'', Name = ''proxy_get_header_map_value'', Desc = DescFunc 6\<rparr>,
             \<lparr>Module = ''env'', Name = ''proxy_log'', Desc = DescFunc 7\<rparr>]
   \<and> map Name (ImportSection (demoModule\<lparr>ImportSection := drop 3 demoImports\<rparr>))
     = [''proxy_log'']
   \<and> map_option ImportSection
         (patchModule 2100 (demoModule\<lparr>ImportSection := drop 3 demoImports\<rparr>))
     = Some [\<lparr>Module = ''env'', Name = ''proxy_log'', Desc = DescFunc 7\<rparr>]"
proof -
  let ?k = "demoModule\<lparr>ImportSection := drop 3 demoImports\<rparr>"
  have kimps: "ImportSection ?k = [\<lparr>Module = ''env'', Name = ''proxy_log'', Desc = DescFunc 7\<rparr>]"
    by (simp add: demoImports_def)
  have kmem: "MemorySection ?k = Some \<lparr>Min_pages = 1, Max_pages = Some 2\<rparr>"
    by (simp add: demoModule_def)
  have kwr: "WriteFile (demoSys ?k) ''build/main.wasm'' out = None" for out
    by (simp add: demoSys_def)
  have kmiss: "\<forall>imp \<in> set (ImportSection ?k).
                 Name imp \<noteq> ''fd_filestat_get'' \<and> Name imp \<noteq> ''path_filestat_get''"
    by (simp add: kimps)
  from missing_rule_skipped [OF demo_read demo_decode kmem kwr, of 2100] kmiss
  obtain k' where "patchModule 2100 ?k = Some k'" and "ImportSection k' = ImportSection ?k"
    by blast
  then have kres: "map_option ImportSection (patchModule 2100 ?k)
      = Some [\<lparr>Module = ''env'', Name = ''proxy_log'', Desc = DescFunc 7\<rparr>]"
    by (simp add: kimps)
  have knames: "map Name (ImportSection ?k) = [''proxy_log'']"
    by (simp add: kimps)
  let ?m = "demoModuleWithout ''fd_filestat_get''"
  have imps: "ImportSection ?m
      = [\<lparr>Module = ''wasi_snapshot_preview1'', Name = ''path_filestat_get'', Desc = DescFunc 6\<rparr>,
         \<lparr>Module = ''env'', Name = ''proxy_log'', Desc = DescFunc 7\<rparr>]"
    by (simp add: demoModuleWithout_def demoModule_def demoImports_def)
  have mem: "MemorySection ?m = Some \<lparr>Min_pages = 1, Max_pages = Some 2\<rparr>"
    by (simp add: demoModuleWithout_def demoModule_def)
  have wr: "WriteFile (demoSys ?m) ''build/main.wasm'' out = None" for out
    by (simp add: demoSys_def)
  have miss: "\<forall>imp \<in> set (ImportSection ?m). Name imp \<noteq> ''fd_filestat_get''"
    by (simp add: imps)
  from missing_rule_skipped [OF demo_read demo_decode mem wr, of 2100] miss
  obtain m' where p: "patchModule 2100 ?m = Some m'"
    and run: "patchWasm (demoSys ?m) ''build/mainraw.wasm'' ''build/main.wasm'' 2100
                = (ReturnedNil, [(''build/main.wasm'', EncodeModule (demoSys ?m) m')])"
    and ms: "MemorySection m' = Some (\<lparr>Min_pages = 1, Max_pages = Some 2\<rparr>\<lparr>Min_pages := ucast (2100 :: 64 word)\<rparr>)"
    and is': "ImportSection m' = map pathFilestatRule (ImportSection ?m)"
    by blast
  have is'': "ImportSection m'
      = [\<lparr>Module = ''env'', Name = ''proxy_get_header_map_value'', Desc = DescFunc 6\<rparr>,
         \<lparr>Module = ''env'', Name = ''proxy_log'', Desc = DescFunc 7\<rparr>]"
    by (simp add: is' imps pathFilestatRule_def)
  have enc: "EncodeModule (demoSys ?m) m' = [52, 2]"
    by (simp add: demoSys_def ms is'')
  have names: "map Name (ImportSection ?m) = [''path_filestat_get'', ''proxy_log'']"
    by (simp add: imps)
  from demo_read demo_decode mem wr names run p is'' enc
  have "ReadFile (demoSys ?m) ''build/mainraw.wasm'' = Inr [0, 97, 115, 109, 1, 0, 0, 0]
      \<and> DecodeModule (demoSys ?m) [0, 97, 115, 109, 1, 0, 0, 0] = Inr ?m
      \<and> MemorySection ?m = Some \<lparr>Min_pages = 1, Max_pages = Some 2\<rparr>
      \<and> WriteFile (demoSys ?m) ''build/main.wasm'' [52, 2] = None
      \<and> map Name (ImportSection ?m) = [''path_filestat_get'', ''proxy_log'']
      \<and> patchWasm (demoSys ?m) ''build/mainraw.wasm'' ''build/main.wasm'' 2100
        = (ReturnedNil, [(''build/main.wasm'', [52, 2])])
      \<and> map_option ImportSection (patchModule 2100 ?m)
        = Some [\<lparr>Module = ''env'', Name = ''proxy_get_header_map_value'', Desc = DescFunc 6\<rparr>,
                \<lparr>Module = ''env'', Name = ''proxy_log'', Desc = DescFunc 7\<rparr>]"
    by simp
  with knames kres show ?thesis by blast
qed

subsection \<open>Determinism of the run\<close>

text \<open>
  Claim C9, as stated: two invocations with equal input bytes and equal patch
  configuration produce the same result, the same output bytes or the same error. The
  value \<^verbatim>\<open>patchWasm\<close> returns after encoding is the one \<^verbatim>\<open>os.WriteFile\<close> returns (lines
  435-437), which depends on the destination and not on the input: with the same paths,
  the same input bytes and the same page count, one run returns nil and the other, on a
  full disk, returns an error.
\<close>

theorem patchWasm_result_counterexample:
  "ReadFile (demoSys demoModule) ''build/mainraw.wasm'' = Inr [0, 97, 115, 109, 1, 0, 0, 0]
   \<and> ReadFile (demoSysDiskFull demoModule) ''build/mainraw.wasm''
       = Inr [0, 97, 115, 109, 1, 0, 0, 0]
   \<and> patchWasm (demoSys demoModule) ''build/mainraw.wasm'' ''build/main.wasm'' 2100
       = (ReturnedNil, [(''build/main.wasm'', [52, 4])])
   \<and> patchWasm (demoSysDiskFull demoModule) ''build/mainraw.wasm'' ''build/main.wasm'' 2100
       = (ReturnedErr ''disk full'', [(''build/main.wasm'', [52, 4])])"
  by code_simp

text \<open>
  Claim C9, amended. Take two invocations, possibly on different paths and in different
  states of the file system, that read the same bytes and are given the same page count
  (the remap table is fixed in the code), with the same decoder and encoder. Then the
  buffers they hand to \<^verbatim>\<open>os.WriteFile\<close> are the same: either both hand over the same
  output bytes, each returning what its own write returns, or both stop before writing
  anything, with the same error or panic. If the two writes behave alike the two runs
  end alike, and if the destination is the same as well the two results are equal.
\<close>

theorem patchWasm_deterministic:
  assumes "ReadFile sy1 in1 = Inr raw" and "ReadFile sy2 in2 = Inr raw"
    and "DecodeModule sy2 = DecodeModule sy1" and "EncodeModule sy2 = EncodeModule sy1"
  shows "((\<exists>out. snd (patchWasm sy1 in1 out1 n) = [(out1, out)]
               \<and> snd (patchWasm sy2 in2 out2 n) = [(out2, out)]
               \<and> fst (patchWasm sy1 in1 out1 n)
                    = (case WriteFile sy1 out1 out of Some err \<Rightarrow> ReturnedErr err | None \<Rightarrow> ReturnedNil)
               \<and> fst (patchWasm sy2 in2 out2 n)
                    = (case WriteFile sy2 out2 out of Some err \<Rightarrow> ReturnedErr err | None \<Rightarrow> ReturnedNil))
         \<or> (snd (patchWasm sy1 in1 out1 n) = [] \<and> snd (patchWasm sy2 in2 out2 n) = []
             \<and> fst (patchWasm sy1 in1 out1 n) = fst (patchWasm sy2 in2 out2 n)))
       \<and> map snd (snd (patchWasm sy1 in1 out1 n)) = map snd (snd (patchWasm sy2 in2 out2 n))
       \<and> (WriteFile sy1 out1 = WriteFile sy2 out2 \<longrightarrow>
            fst (patchWasm sy1 in1 out1 n) = fst (patchWasm sy2 in2 out2 n))
       \<and> (WriteFile sy1 out1 = WriteFile sy2 out2 \<and> out1 = out2 \<longrightarrow>
            patchWasm sy1 in1 out1 n = patchWasm sy2 in2 out2 n)"
proof (cases "DecodeModule sy1 raw")
  case (Inl err)
  with assms show ?thesis by (simp add: patchWasm_def)
next
  case (Inr m)
  then have d2: "DecodeModule sy2 raw = Inr m" using assms(3) by simp
  show ?thesis
  proof (cases "patchModule n m")
    case None
    then show ?thesis
      by (simp add: patchWasm_decoded [OF assms(1) Inr] patchWasm_decoded [OF assms(2) d2])
  next
    case (Some m')
    have r1: "patchWasm sy1 in1 out1 n =
                (case WriteFile sy1 out1 (EncodeModule sy1 m') of
                   Some err \<Rightarrow> ReturnedErr err
                 | None \<Rightarrow> ReturnedNil,
                 [(out1, EncodeModule sy1 m')])"
      using Some by (simp add: patchWasm_decoded [OF assms(1) Inr])
    have r2: "patchWasm sy2 in2 out2 n =
                (case WriteFile sy2 out2 (EncodeModule sy1 m') of
                   Some err \<Rightarrow> ReturnedErr err
                 | None \<Rightarrow> ReturnedNil,
                 [(out2, EncodeModule sy1 m')])"
      using Some by (simp add: patchWasm_decoded [OF assms(2) d2] assms(4))
    have same: "fst (patchWasm sy1 in1 out1 n) = fst (patchWasm sy2 in2 out2 n)"
      if a: "WriteFile sy1 out1 = WriteFile sy2 out2"
      unfolding r1 r2 a by simp
    have eq: "patchWasm sy1 in1 out1 n = patchWasm sy2 in2 out2 n"
      if ab: "WriteFile sy1 out1 = WriteFile sy2 out2 \<and> out1 = out2"
    proof -
      from ab have a: "WriteFile sy1 out1 = WriteFile sy2 out2" and b: "out1 = out2"
        by blast+
      show ?thesis unfolding r1 r2 a by (simp add: b)
    qed
    have bytes: "map snd (snd (patchWasm sy1 in1 out1 n))
                   = map snd (snd (patchWasm sy2 in2 out2 n))"
      by (simp add: r1 r2)
    have fates: "\<exists>out. snd (patchWasm sy1 in1 out1 n) = [(out1, out)]
               \<and> snd (patchWasm sy2 in2 out2 n) = [(out2, out)]
               \<and> fst (patchWasm sy1 in1 out1 n)
                    = (case WriteFile sy1 out1 out of Some err \<Rightarrow> ReturnedErr err | None \<Rightarrow> ReturnedNil)
               \<and> fst (patchWasm sy2 in2 out2 n)
                    = (case WriteFile sy2 out2 out of Some err \<Rightarrow> ReturnedErr err | None \<Rightarrow> ReturnedNil)"
      by (simp add: r1 r2)
    from fates bytes same eq show ?thesis by blast
  qed
qed

theorem patchWasm_deterministic_witness:
  "ReadFile (demoSys demoModule) ''build/mainraw.wasm'' = Inr [0, 97, 115, 109, 1, 0, 0, 0]
   \<and> ReadFile ((demoSys demoModule)\<lparr>ReadFile := \<lambda>p. Inr [0, 97, 115, 109, 1, 0, 0, 0]\<rparr>)
         ''tmp/in.wasm''
       = Inr [0, 97, 115, 109, 1, 0, 0, 0]
   \<and> WriteFile (demoSys demoModule) ''build/main.wasm''
       = WriteFile ((demoSys demoModule)\<lparr>ReadFile := \<lambda>p. Inr [0, 97, 115, 109, 1, 0, 0, 0]\<rparr>)
           ''tmp/out.wasm''
   \<and> patchWasm (demoSys demoModule) ''build/mainraw.wasm'' ''build/main.wasm'' 2100
       = (ReturnedNil, [(''build/main.wasm'', [52, 4])])
   \<and> patchWasm ((demoSys demoModule)\<lparr>ReadFile := \<lambda>p. Inr [0, 97, 115, 109, 1, 0, 0, 0]\<rparr>)
         ''tmp/in.wasm'' ''tmp/out.wasm'' 2100
       = (ReturnedNil, [(''tmp/out.wasm'', [52, 4])])"
proof -
  let ?sy2 = "(demoSys demoModule)\<lparr>ReadFile := \<lambda>p. Inr [0, 97, 115, 109, 1, 0, 0, 0]\<rparr>"
  have r2: "ReadFile ?sy2 ''tmp/in.wasm'' = Inr [0, 97, 115, 109, 1, 0, 0, 0]" by simp
  have d: "DecodeModule ?sy2 = DecodeModule (demoSys demoModule)"
    and e: "EncodeModule ?sy2 = EncodeModule (demoSys demoModule)" by simp_all
  have w: "WriteFile (demoSys demoModule) ''build/main.wasm'' = WriteFile ?sy2 ''tmp/out.wasm''"
    by (simp add: demoSys_def)
  have v1: "patchWasm (demoSys demoModule) ''build/mainraw.wasm'' ''build/main.wasm'' 2100
              = (ReturnedNil, [(''build/main.wasm'', [52, 4])])"
    by code_simp
  note t = patchWasm_deterministic [OF demo_read r2 d e,
             of "''build/main.wasm''" 2100 "''tmp/out.wasm''"]
  from t w have f: "fst (patchWasm ?sy2 ''tmp/in.wasm'' ''tmp/out.wasm'' 2100) = ReturnedNil"
    by (simp add: v1)
  from t v1 have "snd (patchWasm ?sy2 ''tmp/in.wasm'' ''tmp/out.wasm'' 2100)
                    = [(''tmp/out.wasm'', [52, 4])]"
    by auto
  with f have v2: "patchWasm ?sy2 ''tmp/in.wasm'' ''tmp/out.wasm'' 2100
                     = (ReturnedNil, [(''tmp/out.wasm'', [52, 4])])"
    by (simp add: prod_eq_iff)
  from demo_read r2 w v1 v2 show ?thesis by blast
qed

end
